theory Spec2Isabelle
  imports Complex_Main
begin

section \<open>Python values the generator works with\<close>

text \<open>
  The exceptions the generator can meet, each with the text that \<open>str(exc)\<close> gives.
  The texts of \<open>ValueError\<close> and \<open>ZeroDivisionError\<close> are the interpreter's and the
  libraries'; the text of an \<open>OSError\<close> comes from the operating system.
\<close>

datatype py_error = ValueError string | ZeroDivisionError string | OSError string

fun str_exc :: "py_error \<Rightarrow> string" where
  "str_exc (ValueError m) = m"
| "str_exc (ZeroDivisionError m) = m"
| "str_exc (OSError m) = m"

subsection \<open>The random module\<close>

text \<open>
  The generator is unseeded. A random source is modelled as an arbitrary stream of raw
  naturals; the caller says which position of the stream a call consumes.
  \<open>random.randint(a, b)\<close> raises \<open>ValueError\<close> on an empty range and otherwise returns
  an integer of \<open>[a, b]\<close>; every integer of the range is returned by some stream.
  The distribution of the draws is not part of the model.
\<close>

type_synonym rng = "nat \<Rightarrow> nat"

definition randint :: "rng \<Rightarrow> nat \<Rightarrow> int \<Rightarrow> int \<Rightarrow> py_error + int" where
  "randint g k a b =
     (if b < a then Inl (ValueError ''empty range for randrange()'')
      else Inr (a + int (g k mod nat (b - a + 1))))"

subsection \<open>Images and the file system\<close>

text \<open>
  A mode \<open>L\<close> image: its size and one integer per pixel, \<open>0\<close> when new.
  \<open>Image.new\<close> refuses a negative width or height.
\<close>

record image =
  im_width :: int
  im_height :: int
  im_pixels :: "nat \<times> nat \<Rightarrow> int"

definition Image_new :: "int \<Rightarrow> int \<Rightarrow> py_error + image" where
  "Image_new width height =
     (if width < 0 \<or> height < 0 then Inl (ValueError ''Width and height must be >= 0'')
      else Inr \<lparr>im_width = width, im_height = height, im_pixels = (\<lambda>_. 0)\<rparr>)"

datatype file_content = ImageFile image | TextFile string

type_synonym fs = "string \<Rightarrow> file_content option"

text \<open>
  The environment decides which writes and which directory creations fail, and with
  which message; \<open>abspath\<close> is its \<open>os.path.abspath\<close>. A write is taken as one step:
  one that fails leaves the file system as it was (a file left half written is not
  modelled), one that succeeds creates or replaces the file. Whether the image library
  can save an image of width or height 0 is the environment's answer as well.
\<close>

record env =
  write_err :: "string \<Rightarrow> string option"
  mkdir_err :: "string \<Rightarrow> string option"
  abspath :: "string \<Rightarrow> string"

definition write_file :: "env \<Rightarrow> string \<Rightarrow> file_content \<Rightarrow> fs \<Rightarrow> (py_error + unit) \<times> fs" where
  "write_file e path content files =
     (case write_err e path of
        Some m \<Rightarrow> (Inl (OSError m), files)
      | None \<Rightarrow> (Inr (), files(path \<mapsto> content)))"

section \<open>generate_static_image\<close>

definition max_background_grey :: int where
  "max_background_grey = 150"

text \<open>\<open>((x - circle_center_x)**2 + (y - circle_center_y)**2)**0.5\<close>, with the float taken as a real.\<close>

definition distance :: "nat \<Rightarrow> nat \<Rightarrow> int \<Rightarrow> int \<Rightarrow> real" where
  "distance x y circle_center_x circle_center_y =
     sqrt (real_of_int ((int x - circle_center_x)\<^sup>2 + (int y - circle_center_y)\<^sup>2))"

definition in_circle :: "nat \<Rightarrow> nat \<Rightarrow> int \<Rightarrow> int \<Rightarrow> int \<Rightarrow> bool" where
  "in_circle x y circle_center_x circle_center_y circle_radius \<longleftrightarrow>
     distance x y circle_center_x circle_center_y \<le> real_of_int circle_radius"

definition pixel_value :: "bool \<Rightarrow> int \<Rightarrow> int \<Rightarrow> int" where
  "pixel_value inside base_static_value current_brightness_shift =
     (if inside then min (max (base_static_value + current_brightness_shift) 0) 255
      else base_static_value)"

text \<open>
  The body of the inner loop at pixel \<open>(x, y)\<close>. The state is the next position of the
  random stream and the pixels written so far.
\<close>

fun pixel_body ::
  "rng \<Rightarrow> int \<Rightarrow> int \<Rightarrow> int \<Rightarrow> int \<Rightarrow> nat \<Rightarrow> nat \<Rightarrow>
   py_error + nat \<times> (nat \<times> nat \<Rightarrow> int) \<Rightarrow> py_error + nat \<times> (nat \<times> nat \<Rightarrow> int)" where
  "pixel_body g circle_radius circle_center_x circle_center_y shift y x (Inl e) = Inl e"
| "pixel_body g circle_radius circle_center_x circle_center_y shift y x (Inr (k, pixels)) =
     (case randint g k 0 max_background_grey of
        Inl e \<Rightarrow> Inl e
      | Inr base_static_value \<Rightarrow>
          Inr (Suc k,
               pixels((x, y) :=
                 pixel_value (in_circle x y circle_center_x circle_center_y circle_radius)
                   base_static_value shift)))"

definition row_loop ::
  "rng \<Rightarrow> int \<Rightarrow> int \<Rightarrow> int \<Rightarrow> int \<Rightarrow> int \<Rightarrow> nat \<Rightarrow>
   py_error + nat \<times> (nat \<times> nat \<Rightarrow> int) \<Rightarrow> py_error + nat \<times> (nat \<times> nat \<Rightarrow> int)" where
  "row_loop g width circle_radius circle_center_x circle_center_y shift y st =
     fold (pixel_body g circle_radius circle_center_x circle_center_y shift y) [0..<nat width] st"

definition image_loop ::
  "rng \<Rightarrow> int \<Rightarrow> int \<Rightarrow> int \<Rightarrow> int \<Rightarrow> int \<Rightarrow> int \<Rightarrow>
   py_error + nat \<times> (nat \<times> nat \<Rightarrow> int) \<Rightarrow> py_error + nat \<times> (nat \<times> nat \<Rightarrow> int)" where
  "image_loop g width height circle_radius circle_center_x circle_center_y shift st =
     fold (row_loop g width circle_radius circle_center_x circle_center_y shift) [0..<nat height] st"

text \<open>
  The function itself: a new image, the two loops, the save, and the image returned.
  \<open>k\<close> is the position of the random stream at the call; the position after the call is
  returned with the image.
\<close>

definition generate_static_image ::
  "env \<Rightarrow> rng \<Rightarrow> nat \<Rightarrow> int \<Rightarrow> int \<Rightarrow> int \<Rightarrow> int \<Rightarrow> int \<Rightarrow> string \<Rightarrow> int \<Rightarrow> fs \<Rightarrow>
   (py_error + image \<times> nat) \<times> fs" where
  "generate_static_image e g k width height circle_radius circle_center_x circle_center_y
     output_filepath current_brightness_shift files =
     (case Image_new width height of
        Inl err \<Rightarrow> (Inl err, files)
      | Inr img \<Rightarrow>
          (case image_loop g width height circle_radius circle_center_x circle_center_y
                  current_brightness_shift (Inr (k, im_pixels img)) of
             Inl err \<Rightarrow> (Inl err, files)
           | Inr (k', pixels) \<Rightarrow>
               (let img' = img\<lparr>im_pixels := pixels\<rparr> in
                case write_file e output_filepath (ImageFile img') files of
                  (Inl err, files') \<Rightarrow> (Inl err, files')
                | (Inr _, files') \<Rightarrow> (Inr (img', k'), files'))))"

section \<open>Text formatting\<close>

definition digit_char :: "nat \<Rightarrow> char" where
  "digit_char d = ''0123456789'' ! d"

fun str_nat :: "nat \<Rightarrow> string" where
  "str_nat n = (if n < 10 then [digit_char n] else str_nat (n div 10) @ [digit_char (n mod 10)])"

declare str_nat.simps [simp del]

text \<open>\<open>str(i)\<close> of an integer, as an f-string field without a format gives it.\<close>

definition str_int :: "int \<Rightarrow> string" where
  "str_int i = (if i < 0 then ''-'' @ str_nat (nat (- i)) else str_nat (nat i))"

definition zfill :: "nat \<Rightarrow> string \<Rightarrow> string" where
  "zfill width s = replicate (width - length s) (CHR ''0'') @ s"

text \<open>The format \<open>05d\<close>: zero padding to five characters, the sign counted.\<close>

definition fmt_05d :: "int \<Rightarrow> string" where
  "fmt_05d i = (if i < 0 then ''-'' @ zfill 4 (str_nat (nat (- i))) else zfill 5 (str_nat (nat i)))"

text \<open>
  Python's true division of two integers. The float it returns is taken as the exact
  quotient: rounding to a double is not modelled.
\<close>

definition truediv :: "int \<Rightarrow> int \<Rightarrow> py_error + rat" where
  "truediv a b =
     (if b = 0 then Inl (ZeroDivisionError ''division by zero'') else Inr (of_int a / of_int b))"

definition round_half_even :: "rat \<Rightarrow> int" where
  "round_half_even q =
     (let f = \<lfloor>q\<rfloor>; d = q - of_int f in
      if d < 1 / 2 then f else if 1 / 2 < d then f + 1 else if even f then f else f + 1)"

text \<open>The format \<open>.6f\<close>: sign, integer part, a point and exactly six decimals.\<close>

definition fmt_6f :: "rat \<Rightarrow> string" where
  "fmt_6f q =
     (let m = nat (round_half_even (\<bar>q\<bar> * 1000000));
          s = str_nat (m div 1000000) @ ''.'' @ zfill 6 (str_nat (m mod 1000000))
      in if q < 0 then ''-'' @ s else s)"

text \<open>\<open>os.path.join\<close> of two components, as \<open>posixpath\<close> defines it.\<close>

definition path_join :: "string \<Rightarrow> string \<Rightarrow> string" where
  "path_join a b =
     (if b \<noteq> [] \<and> hd b = CHR ''/'' then b
      else if a = [] \<or> last a = CHR ''/'' then a @ b
      else a @ ''/'' @ b)"

section \<open>generate_single_sample\<close>

text \<open>The YOLO label: lines 78 to 82 of the source, the four divisions in their order.\<close>

record bbox =
  class_id :: int
  normalized_center_x :: rat
  normalized_center_y :: rat
  normalized_width :: rat
  normalized_height :: rat

definition yolo_label :: "int \<Rightarrow> int \<Rightarrow> int \<Rightarrow> int \<Rightarrow> int \<Rightarrow> py_error + bbox" where
  "yolo_label random_circle_center_x circle_center_y_coord circle_rad img_width img_height =
     (case truediv random_circle_center_x img_width of
        Inl err \<Rightarrow> Inl err
      | Inr ncx \<Rightarrow>
     (case truediv circle_center_y_coord img_height of
        Inl err \<Rightarrow> Inl err
      | Inr ncy \<Rightarrow>
     (case truediv (2 * circle_rad) img_width of
        Inl err \<Rightarrow> Inl err
      | Inr nw \<Rightarrow>
     (case truediv (2 * circle_rad) img_height of
        Inl err \<Rightarrow> Inl err
      | Inr nh \<Rightarrow>
          Inr \<lparr>class_id = 0, normalized_center_x = ncx, normalized_center_y = ncy,
               normalized_width = nw, normalized_height = nh\<rparr>))))"

definition label_line :: "bbox \<Rightarrow> string" where
  "label_line box =
     str_int (class_id box) @ '' '' @ fmt_6f (normalized_center_x box) @ '' '' @
     fmt_6f (normalized_center_y box) @ '' '' @ fmt_6f (normalized_width box) @ '' '' @
     fmt_6f (normalized_height box) @ [CHR 0x0A]"

definition img_filename :: "int \<Rightarrow> string" where
  "img_filename sample_index = ''image_'' @ fmt_05d sample_index @ ''.png''"

definition label_filename :: "int \<Rightarrow> string" where
  "label_filename sample_index = ''image_'' @ fmt_05d sample_index @ ''.txt''"

text \<open>
  One job. The stream \<open>g\<close> is the job's own: position 0 gives the centre, position 1 the
  brightness shift, the pixels follow from position 2. The result is what the call
  returns or raises, with the file system it leaves.
\<close>

definition generate_single_sample ::
  "env \<Rightarrow> rng \<Rightarrow> int \<Rightarrow> int \<Rightarrow> int \<Rightarrow> int \<Rightarrow> string \<Rightarrow> string \<Rightarrow> fs \<Rightarrow> (py_error + bool) \<times> fs" where
  "generate_single_sample e g sample_index img_width img_height circle_rad images_dir labels_dir files =
     (case randint g 0 circle_rad (img_width - circle_rad) of
        Inl err \<Rightarrow> (Inl err, files)
      | Inr random_circle_center_x \<Rightarrow>
          (let circle_center_y_coord = img_height div 2 in
           case randint g 1 (- 4) 3 of
             Inl err \<Rightarrow> (Inl err, files)
           | Inr d \<Rightarrow>
               (let random_brightness_shift = 20 + d;
                    img_filepath = path_join images_dir (img_filename sample_index);
                    label_filepath = path_join labels_dir (label_filename sample_index)
                in
                case generate_static_image e g 2 img_width img_height circle_rad
                       random_circle_center_x circle_center_y_coord img_filepath
                       random_brightness_shift files of
                  (Inl err, files1) \<Rightarrow> (Inl err, files1)
                | (Inr _, files1) \<Rightarrow>
                    (case yolo_label random_circle_center_x circle_center_y_coord circle_rad
                            img_width img_height of
                       Inl err \<Rightarrow> (Inl err, files1)
                     | Inr box \<Rightarrow>
                         (case write_file e label_filepath (TextFile (label_line box)) files1 of
                            (Inl err, files2) \<Rightarrow> (Inl err, files2)
                          | (Inr _, files2) \<Rightarrow> (Inr True, files2))))))"

section \<open>generate_yolo_dataset_multiprocessed\<close>

text \<open>
  The worker pool. Job \<open>j\<close> of a split runs \<open>generate_single_sample\<close> on its own random
  stream; \<open>as_completed\<close> hands the futures over in the order the jobs finish, which the
  pool decides: the list \<open>order\<close> of job indices. Jobs are run one after the other in
  that order (a job writes its own two files only), and the result of each is kept.
\<close>

definition as_completed_order :: "nat list \<Rightarrow> int \<Rightarrow> bool" where
  "as_completed_order order num_samples \<longleftrightarrow>
     distinct order \<and> set order = set [0..<nat num_samples]"

definition run_job ::
  "env \<Rightarrow> (nat \<Rightarrow> rng) \<Rightarrow> int \<Rightarrow> int \<Rightarrow> int \<Rightarrow> string \<Rightarrow> string \<Rightarrow> nat \<Rightarrow>
   (py_error + bool) list \<times> fs \<Rightarrow> (py_error + bool) list \<times> fs" where
  "run_job e rnd img_width img_height circle_rad images_dir labels_dir j st =
     (case generate_single_sample e (rnd j) (int j) img_width img_height circle_rad
             images_dir labels_dir (snd st) of
        (res, files') \<Rightarrow> (fst st @ [res], files'))"

definition run_pool ::
  "env \<Rightarrow> (nat \<Rightarrow> rng) \<Rightarrow> int \<Rightarrow> int \<Rightarrow> int \<Rightarrow> string \<Rightarrow> string \<Rightarrow> nat list \<Rightarrow> fs \<Rightarrow>
   (py_error + bool) list \<times> fs" where
  "run_pool e rnd img_width img_height circle_rad images_dir labels_dir order files =
     fold (run_job e rnd img_width img_height circle_rad images_dir labels_dir) order ([], files)"

text \<open>\<open>num_samples // 10 or 1\<close>\<close>

definition progress_step :: "int \<Rightarrow> int" where
  "progress_step num_samples = (if num_samples div 10 = 0 then 1 else num_samples div 10)"

definition progress_line :: "string \<Rightarrow> int \<Rightarrow> nat \<Rightarrow> string" where
  "progress_line split_name num_samples i =
     ''  Generated '' @ str_int (int i + 1) @ ''/'' @ str_int num_samples @ '' for '' @ split_name"

definition failure_line :: "py_error \<Rightarrow> string" where
  "failure_line exc = ''Generated sample threw an exception: '' @ str_exc exc"

text \<open>
  The body of the collecting loop for the \<open>i\<close>-th future handed over: the \<open>try\<close> block
  when \<open>future.result()\<close> returns, the \<open>except\<close> block when it raises. \<open>out\<close> is what
  has been printed.
\<close>

fun collect_body :: "string \<Rightarrow> int \<Rightarrow> nat \<times> (py_error + bool) \<Rightarrow> string list \<Rightarrow> string list" where
  "collect_body split_name num_samples (i, Inr _) out =
     (if (int i + 1) mod progress_step num_samples = 0
      then out @ [progress_line split_name num_samples i] else out)"
| "collect_body split_name num_samples (i, Inl exc) out = out @ [failure_line exc]"

definition collect :: "string \<Rightarrow> int \<Rightarrow> (py_error + bool) list \<Rightarrow> string list \<Rightarrow> string list" where
  "collect split_name num_samples results out =
     fold (collect_body split_name num_samples) (enumerate 0 results) out"

text \<open>
  The body of the loop over the splits. A directory that cannot be created raises out of
  the function, and so does a pool asked for no worker; nothing else does.
\<close>

definition generate_split ::
  "env \<Rightarrow> (nat \<Rightarrow> rng) \<Rightarrow> nat list \<Rightarrow> string \<Rightarrow> int \<Rightarrow> int \<Rightarrow> int \<Rightarrow> int \<Rightarrow> string \<Rightarrow> int \<Rightarrow>
   fs \<times> string list \<Rightarrow> (py_error + unit) \<times> fs \<times> string list" where
  "generate_split e rnd order base_output_dir img_width img_height circle_rad max_workers
     split_name num_samples st =
     (let files = fst st; out = snd st;
          split_base_dir = path_join base_output_dir split_name;
          images_dir = path_join split_base_dir ''images'';
          labels_dir = path_join split_base_dir ''labels''
      in
      case mkdir_err e images_dir of
        Some m \<Rightarrow> (Inl (OSError m), files, out)
      | None \<Rightarrow>
     (case mkdir_err e labels_dir of
        Some m \<Rightarrow> (Inl (OSError m), files, out)
      | None \<Rightarrow>
          (let out1 = out @
                 [''Created directories for '' @ [CHR 0x27] @ split_name @ [CHR 0x27] @ '': '' @
                    images_dir @ '' and '' @ labels_dir,
                  ''Generating '' @ str_int num_samples @ '' samples for '' @ [CHR 0x27] @
                    split_name @ [CHR 0x27] @ '' split...'']
           in
           if max_workers \<le> 0
           then (Inl (ValueError ''max_workers must be greater than 0''), files, out1)
           else
             (case run_pool e rnd img_width img_height circle_rad images_dir labels_dir order files of
                (results, files') \<Rightarrow>
                  (Inr (), files', collect split_name num_samples results out1)))))"

text \<open>
  The loop over the three splits, in the order of the dictionary. \<open>rnd\<close> gives every job
  of every split its stream, \<open>sched\<close> every split its completion order.
\<close>

fun splits_loop ::
  "env \<Rightarrow> (string \<Rightarrow> nat \<Rightarrow> rng) \<Rightarrow> (string \<Rightarrow> nat list) \<Rightarrow> string \<Rightarrow> int \<Rightarrow> int \<Rightarrow> int \<Rightarrow>
   int \<Rightarrow> (string \<times> int) list \<Rightarrow> fs \<times> string list \<Rightarrow> (py_error + unit) \<times> fs \<times> string list" where
  "splits_loop e rnd sched base_output_dir img_width img_height circle_rad max_workers [] st =
     (Inr (), st)"
| "splits_loop e rnd sched base_output_dir img_width img_height circle_rad max_workers
     ((split_name, num_samples) # rest) st =
     (case generate_split e (rnd split_name) (sched split_name) base_output_dir
             img_width img_height circle_rad max_workers split_name num_samples st of
        (Inl err, st') \<Rightarrow> (Inl err, st')
      | (Inr _, st') \<Rightarrow>
          splits_loop e rnd sched base_output_dir img_width img_height circle_rad max_workers
            rest st')"

definition generate_yolo_dataset_multiprocessed ::
  "env \<Rightarrow> (string \<Rightarrow> nat \<Rightarrow> rng) \<Rightarrow> (string \<Rightarrow> nat list) \<Rightarrow> string \<Rightarrow> int \<Rightarrow> int \<Rightarrow> int \<Rightarrow>
   int \<Rightarrow> int \<Rightarrow> int \<Rightarrow> int \<Rightarrow> fs \<times> string list \<Rightarrow> (py_error + unit) \<times> fs \<times> string list" where
  "generate_yolo_dataset_multiprocessed e rnd sched base_output_dir img_width img_height circle_rad
     num_train_samples num_val_samples num_test_samples max_workers st =
     (let splits = [(''train'', num_train_samples), (''val'', num_val_samples),
                    (''test'', num_test_samples)];
          out0 = snd st @
            [''Starting YOLO dataset generation in '' @ [CHR 0x27] @ base_output_dir @ [CHR 0x27] @
               '' using '' @ str_int max_workers @ '' processes...'']
      in
      case splits_loop e rnd sched base_output_dir img_width img_height circle_rad max_workers
             splits (fst st, out0) of
        (Inl err, st') \<Rightarrow> (Inl err, st')
      | (Inr _, files', out') \<Rightarrow>
          (Inr (), files',
           out' @ [[CHR 0x0A] @ ''Dataset generation complete!'',
                   ''Dataset structure created in: '' @ abspath e base_output_dir]))"

section \<open>The shape of a label field\<close>



section \<open>Closed forms\<close>

text \<open>
  What the loops and the job compute, written without loops. These are not part of the
  program: each is proved equal to the program's own result below, and the proofs go
  through them.
\<close>

definition static_pixels :: "rng \<Rightarrow> nat \<Rightarrow> int \<Rightarrow> int \<Rightarrow> int \<Rightarrow> int \<Rightarrow> int \<Rightarrow> int \<Rightarrow> nat \<times> nat \<Rightarrow> int" where
  "static_pixels g k width height circle_radius circle_center_x circle_center_y shift p =
     (if fst p < nat width \<and> snd p < nat height
      then pixel_value (in_circle (fst p) (snd p) circle_center_x circle_center_y circle_radius)
             (int (g (k + snd p * nat width + fst p) mod 151)) shift
      else 0)"

definition static_image :: "rng \<Rightarrow> nat \<Rightarrow> int \<Rightarrow> int \<Rightarrow> int \<Rightarrow> int \<Rightarrow> int \<Rightarrow> int \<Rightarrow> image" where
  "static_image g k width height circle_radius circle_center_x circle_center_y shift =
     \<lparr>im_width = width, im_height = height,
      im_pixels = static_pixels g k width height circle_radius circle_center_x circle_center_y shift\<rparr>"

definition drawn_center_x :: "rng \<Rightarrow> int \<Rightarrow> int \<Rightarrow> int" where
  "drawn_center_x g circle_rad img_width =
     circle_rad + int (g 0 mod nat (img_width - circle_rad - circle_rad + 1))"

definition drawn_shift :: "rng \<Rightarrow> int" where
  "drawn_shift g = 20 + (- 4 + int (g 1 mod 8))"

definition sample_image :: "rng \<Rightarrow> int \<Rightarrow> int \<Rightarrow> int \<Rightarrow> image" where
  "sample_image g img_width img_height circle_rad =
     static_image g 2 img_width img_height circle_rad (drawn_center_x g circle_rad img_width)
       (img_height div 2) (drawn_shift g)"

definition sample_box :: "rng \<Rightarrow> int \<Rightarrow> int \<Rightarrow> int \<Rightarrow> bbox" where
  "sample_box g img_width img_height circle_rad =
     \<lparr>class_id = 0,
      normalized_center_x = of_int (drawn_center_x g circle_rad img_width) / of_int img_width,
      normalized_center_y = of_int (img_height div 2) / of_int img_height,
      normalized_width = of_int (2 * circle_rad) / of_int img_width,
      normalized_height = of_int (2 * circle_rad) / of_int img_height\<rparr>"

definition split_header :: "string \<Rightarrow> string \<Rightarrow> int \<Rightarrow> string list" where
  "split_header base_output_dir split_name num_samples =
     [''Created directories for '' @ [CHR 0x27] @ split_name @ [CHR 0x27] @ '': '' @
        path_join (path_join base_output_dir split_name) ''images'' @ '' and '' @
        path_join (path_join base_output_dir split_name) ''labels'',
      ''Generating '' @ str_int num_samples @ '' samples for '' @ [CHR 0x27] @
        split_name @ [CHR 0x27] @ '' split...'']"

definition emitted :: "string \<Rightarrow> int \<Rightarrow> nat \<Rightarrow> py_error + bool \<Rightarrow> string list" where
  "emitted split_name num_samples i res =
     (case res of
        Inr _ \<Rightarrow> (if (int i + 1) mod progress_step num_samples = 0
                  then [progress_line split_name num_samples i] else [])
      | Inl exc \<Rightarrow> [failure_line exc])"

section \<open>Environments of the examples\<close>

text \<open>An environment where nothing fails, and one where the disk fills on one path.\<close>

definition env_ok :: env where
  "env_ok = \<lparr>write_err = (\<lambda>_. None), mkdir_err = (\<lambda>_. None), abspath = (\<lambda>p. ''/'' @ p)\<rparr>"

definition env_full :: "string \<Rightarrow> env" where
  "env_full path =
     \<lparr>write_err = (\<lambda>p. if p = path then Some ''[Errno 28] No space left on device'' else None),
      mkdir_err = (\<lambda>_. None), abspath = (\<lambda>p. ''/'' @ p)\<rparr>"

definition rng_lin :: rng where
  "rng_lin k = 7 * k + 3"

section \<open>The synthesized image\<close>


lemma randint_base: "randint g k 0 max_background_grey = Inr (int (g k mod 151))"
  by (simp add: randint_def max_background_grey_def)

lemma pixel_body_Inr:
  "pixel_body g r cx cy s y x (Inr (k, px)) =
     Inr (Suc k, px((x, y) := pixel_value (in_circle x y cx cy r) (int (g k mod 151)) s))"
  by (simp add: randint_base)

lemma row_fold:
  "fold (pixel_body g r cx cy s y) [0..<n] (Inr (k, px)) =
     Inr (k + n, \<lambda>p. if snd p = y \<and> fst p < n
                       then pixel_value (in_circle (fst p) y cx cy r) (int (g (k + fst p) mod 151)) s
                       else px p)"
proof (induction n)
  case 0
  show ?case by simp
next
  case (Suc n)
  have "(\<lambda>p. if snd p = y \<and> fst p < n
              then pixel_value (in_circle (fst p) y cx cy r) (int (g (k + fst p) mod 151)) s
              else px p)((n, y) := pixel_value (in_circle n y cx cy r) (int (g (k + n) mod 151)) s)
        = (\<lambda>p. if snd p = y \<and> fst p < Suc n
              then pixel_value (in_circle (fst p) y cx cy r) (int (g (k + fst p) mod 151)) s
              else px p)"
    by (rule ext) (auto simp: less_Suc_eq prod_eq_iff)
  with Suc show ?case
    by (simp del: pixel_body.simps add: pixel_body_Inr)
qed

lemma row_loop_Inr:
  "row_loop g w r cx cy s y (Inr (k, px)) =
     Inr (k + nat w, \<lambda>p. if snd p = y \<and> fst p < nat w
                       then pixel_value (in_circle (fst p) y cx cy r) (int (g (k + fst p) mod 151)) s
                       else px p)"
  by (simp add: row_loop_def row_fold)

lemma rows_fold:
  "fold (row_loop g w r cx cy s) [0..<m] (Inr (k, px)) =
     Inr (k + m * nat w, \<lambda>p. if fst p < nat w \<and> snd p < m
                       then pixel_value (in_circle (fst p) (snd p) cx cy r)
                              (int (g (k + snd p * nat w + fst p) mod 151)) s
                       else px p)"
proof (induction m)
  case 0
  show ?case by simp
next
  case (Suc m)
  have "(\<lambda>p. if snd p = m \<and> fst p < nat w
              then pixel_value (in_circle (fst p) m cx cy r) (int (g (k + m * nat w + fst p) mod 151)) s
              else if fst p < nat w \<and> snd p < m
                   then pixel_value (in_circle (fst p) (snd p) cx cy r)
                          (int (g (k + snd p * nat w + fst p) mod 151)) s
                   else px p)
        = (\<lambda>p. if fst p < nat w \<and> snd p < Suc m
              then pixel_value (in_circle (fst p) (snd p) cx cy r)
                     (int (g (k + snd p * nat w + fst p) mod 151)) s
              else px p)"
    by (rule ext) (auto simp: less_Suc_eq)
  with Suc show ?case
    by (simp add: row_loop_Inr add.commute add.left_commute)
qed

lemma image_loop_Inr:
  "image_loop g w h r cx cy s (Inr (k, \<lambda>_. 0)) =
     Inr (k + nat h * nat w, static_pixels g k w h r cx cy s)"
  by (simp add: image_loop_def rows_fold static_pixels_def fun_eq_iff)

lemma generate_static_image_eq:
  "generate_static_image e g k w h r cx cy path s files =
     (if w < 0 \<or> h < 0 then (Inl (ValueError ''Width and height must be >= 0''), files)
      else case write_err e path of
             Some m \<Rightarrow> (Inl (OSError m), files)
           | None \<Rightarrow> (Inr (static_image g k w h r cx cy s, k + nat h * nat w),
                      files(path \<mapsto> ImageFile (static_image g k w h r cx cy s))))"
  by (simp add: generate_static_image_def Image_new_def image_loop_Inr write_file_def
      static_image_def Let_def split: option.splits)

lemma randint_center:
  "randint g 0 r (w - r) =
     (if w - r < r then Inl (ValueError ''empty range for randrange()'')
      else Inr (drawn_center_x g r w))"
  by (simp add: randint_def drawn_center_x_def)

lemma randint_shift: "randint g (Suc 0) (- 4) 3 = Inr (- 4 + int (g 1 mod 8))"
  by (simp add: randint_def)

lemma yolo_label_eq:
  "yolo_label c cy r w h =
     (if w = 0 \<or> h = 0 then Inl (ZeroDivisionError ''division by zero'')
      else Inr \<lparr>class_id = 0, normalized_center_x = of_int c / of_int w,
                normalized_center_y = of_int cy / of_int h,
                normalized_width = of_int (2 * r) / of_int w,
                normalized_height = of_int (2 * r) / of_int h\<rparr>)"
  by (simp add: yolo_label_def truediv_def)

lemma generate_single_sample_eq:
  "generate_single_sample e g i w h r idir ldir files =
     (let imgp = path_join idir (img_filename i); lblp = path_join ldir (label_filename i);
          files1 = files(imgp \<mapsto> ImageFile (sample_image g w h r))
      in
      if w - r < r then (Inl (ValueError ''empty range for randrange()''), files)
      else if w < 0 \<or> h < 0 then (Inl (ValueError ''Width and height must be >= 0''), files)
      else case write_err e imgp of
             Some m \<Rightarrow> (Inl (OSError m), files)
           | None \<Rightarrow>
               if w = 0 \<or> h = 0 then (Inl (ZeroDivisionError ''division by zero''), files1)
               else case write_err e lblp of
                      Some m \<Rightarrow> (Inl (OSError m), files1)
                    | None \<Rightarrow> (Inr True, files1(lblp \<mapsto> TextFile (label_line (sample_box g w h r)))))"
  by (simp add: generate_single_sample_def randint_center randint_shift generate_static_image_eq
      yolo_label_eq write_file_def sample_image_def sample_box_def drawn_shift_def Let_def
      split: option.splits)

lemma last_path_join: "b \<noteq> [] \<Longrightarrow> last (path_join a b) = last b"
  by (cases b) (auto simp: path_join_def)

lemma img_label_paths_differ:
  "path_join idir (img_filename i) \<noteq> path_join ldir (label_filename j)"
proof
  assume "path_join idir (img_filename i) = path_join ldir (label_filename j)"
  then have "last (path_join idir (img_filename i)) = last (path_join ldir (label_filename j))"
    by simp
  then show False
    by (simp add: last_path_join img_filename_def label_filename_def)
qed





section \<open>One sample\<close>

lemma generate_single_sample_success:
  "generate_single_sample e g i w h r idir ldir files = (Inr True, files') \<longleftrightarrow>
     r \<le> w - r \<and> 0 < w \<and> 0 < h
     \<and> write_err e (path_join idir (img_filename i)) = None
     \<and> write_err e (path_join ldir (label_filename i)) = None
     \<and> files' = files(path_join idir (img_filename i) \<mapsto> ImageFile (sample_image g w h r),
                       path_join ldir (label_filename i) \<mapsto> TextFile (label_line (sample_box g w h r)))"
  by (auto simp: generate_single_sample_eq Let_def split: option.splits)


lemma drawn_shift_range: "16 \<le> drawn_shift g \<and> drawn_shift g \<le> 23"
proof -
  have "g 1 mod 8 < 8" by simp
  then show ?thesis unfolding drawn_shift_def by linarith
qed

lemma randint_shift_drawn: "randint g 1 (- 4) 3 = Inr (drawn_shift g - 20)"
  by (simp add: randint_def drawn_shift_def)

lemma written_files:
  assumes "generate_single_sample e g i w h r idir ldir files = (Inr True, files')"
  shows "files' (path_join idir (img_filename i)) = Some (ImageFile (sample_image g w h r))"
    and "files' (path_join ldir (label_filename i)) = Some (TextFile (label_line (sample_box g w h r)))"
  using assms img_label_paths_differ [of idir i ldir i]
  by (auto simp: generate_single_sample_success)



text \<open>
  Claim C6. In a job that succeeds, the brightness shift handed to
  \<open>generate_static_image\<close> is \<open>20 + random.randint(-4, 3)\<close>: a value \<open>s\<close> of the band
  \<open>[16, 23]\<close>, strictly positive, and the image the job leaves on disk is the one
  synthesized with that shift. Every value of the band is the shift of some stream, so
  the band is exactly \<open>[20 - 4, 20 + 3]\<close>.
\<close>

theorem brightness_shift_band:
  assumes "generate_single_sample e g i w h r idir ldir files = (Inr True, files')"
  shows "(\<exists>c s img k'.
            randint g 0 r (w - r) = Inr c \<and> randint g 1 (- 4) 3 = Inr (s - 20)
            \<and> 16 \<le> s \<and> s \<le> 23 \<and> 0 < s
            \<and> fst (generate_static_image e g 2 w h r c (h div 2)
                      (path_join idir (img_filename i)) s files) = Inr (img, k')
            \<and> files' (path_join idir (img_filename i)) = Some (ImageFile img))
         \<and> (\<forall>s\<in>{16..23}. \<exists>g'. randint g' 1 (- 4) 3 = Inr (s - 20))"
proof -
  from assms have ok: "r \<le> w - r" "0 < w" "0 < h"
    "write_err e (path_join idir (img_filename i)) = None"
    by (simp_all add: generate_single_sample_success)
  have "randint g 0 r (w - r) = Inr (drawn_center_x g r w)"
    using ok(1) by (simp add: randint_center)
  moreover have "randint g 1 (- 4) 3 = Inr (drawn_shift g - 20)"
    by (rule randint_shift_drawn)
  moreover have "16 \<le> drawn_shift g" "drawn_shift g \<le> 23" "0 < drawn_shift g"
    using drawn_shift_range [of g] by simp_all
  moreover have "fst (generate_static_image e g 2 w h r (drawn_center_x g r w) (h div 2)
                      (path_join idir (img_filename i)) (drawn_shift g) files)
                 = Inr (sample_image g w h r, 2 + nat h * nat w)"
    using ok by (simp add: generate_static_image_eq sample_image_def)
  moreover have "files' (path_join idir (img_filename i)) = Some (ImageFile (sample_image g w h r))"
    using assms by (rule written_files)
  ultimately have first: "\<exists>c s img k'.
            randint g 0 r (w - r) = Inr c \<and> randint g 1 (- 4) 3 = Inr (s - 20)
            \<and> 16 \<le> s \<and> s \<le> 23 \<and> 0 < s
            \<and> fst (generate_static_image e g 2 w h r c (h div 2)
                      (path_join idir (img_filename i)) s files) = Inr (img, k')
            \<and> files' (path_join idir (img_filename i)) = Some (ImageFile img)"
    by blast
  have "\<exists>g'. randint g' 1 (- 4) 3 = Inr (s - 20)" if "s \<in> {16..23}" for s :: int
  proof
    have "int (nat (s - 16) mod 8) = s - 16" using that by auto
    then show "randint (\<lambda>_. nat (s - 16)) 1 (- 4) 3 = Inr (s - 20)"
      by (simp add: randint_def)
  qed
  with first show ?thesis by blast
qed

text \<open>
  A job on a 4 by 2 image, radius 1: it succeeds, its stream gives \<open>randint(-4, 3) = -2\<close>,
  so the shift is 18.
\<close>

theorem brightness_shift_band_witness:
  "\<exists>files'. generate_single_sample env_ok rng_lin 7 4 2 1 ''d/images'' ''d/labels'' Map.empty
       = (Inr True, files')
     \<and> randint rng_lin 1 (- 4) 3 = Inr (18 - 20) \<and> (16::int) \<le> 18 \<and> (18::int) \<le> 23
     \<and> (\<exists>g'. randint g' 1 (- 4) 3 = Inr (23 - 20))"
proof -
  obtain files' where
    h: "generate_single_sample env_ok rng_lin 7 4 2 1 ''d/images'' ''d/labels'' Map.empty
          = (Inr True, files')"
    by (simp add: generate_single_sample_success env_ok_def)
  have "\<forall>s\<in>{16..23}. \<exists>g'. randint g' 1 (- 4) 3 = Inr (s - 20)"
    using brightness_shift_band [OF h] by blast
  moreover have "(23::int) \<in> {16..23}" by simp
  ultimately have "\<exists>g'. randint g' 1 (- 4) 3 = Inr (23 - 20)" by (rule bspec)
  moreover have "randint rng_lin 1 (- 4) 3 = Inr (18 - 20)"
    by (simp add: randint_def rng_lin_def)
  ultimately show ?thesis using h by auto
qed









section \<open>The text of a label\<close>























section \<open>The pool and the collecting loop\<close>

lemma job_result_any_files:
  "fst (generate_single_sample e g i w h r idir ldir files)
     = fst (generate_single_sample e g i w h r idir ldir files0)"
  by (simp add: generate_single_sample_eq Let_def split: option.splits)

lemma job_keeps_files:
  "files p \<noteq> None \<Longrightarrow> snd (generate_single_sample e g i w h r idir ldir files) p \<noteq> None"
  by (simp add: generate_single_sample_eq Let_def split: option.splits)

lemma job_success_files:
  assumes "fst (generate_single_sample e g i w h r idir ldir files) = Inr True"
  shows "snd (generate_single_sample e g i w h r idir ldir files) (path_join idir (img_filename i)) \<noteq> None"
    and "snd (generate_single_sample e g i w h r idir ldir files) (path_join ldir (label_filename i)) \<noteq> None"
proof -
  obtain files' where "generate_single_sample e g i w h r idir ldir files = (Inr True, files')"
    using assms by (cases "generate_single_sample e g i w h r idir ldir files") simp
  then show "snd (generate_single_sample e g i w h r idir ldir files) (path_join idir (img_filename i)) \<noteq> None"
    and "snd (generate_single_sample e g i w h r idir ldir files) (path_join ldir (label_filename i)) \<noteq> None"
    using written_files [of e g i w h r idir ldir files files'] by simp_all
qed

lemma run_job_eq:
  "run_job e rnd w h r idir ldir j (acc, files) =
     (acc @ [fst (generate_single_sample e (rnd j) (int j) w h r idir ldir files)],
      snd (generate_single_sample e (rnd j) (int j) w h r idir ldir files))"
  by (simp add: run_job_def split: prod.splits)

lemma fold_run_job_results:
  "fst (fold (run_job e rnd w h r idir ldir) order (acc, files)) =
     acc @ map (\<lambda>j. fst (generate_single_sample e (rnd j) (int j) w h r idir ldir files0)) order"
proof (induction order arbitrary: acc files)
  case Nil
  show ?case by simp
next
  case (Cons j order)
  show ?case
    using job_result_any_files [of e "rnd j" "int j" w h r idir ldir files files0]
    by (simp add: run_job_eq Cons.IH)
qed

lemma fold_run_job_keeps:
  "files p \<noteq> None \<Longrightarrow> snd (fold (run_job e rnd w h r idir ldir) order (acc, files)) p \<noteq> None"
proof (induction order arbitrary: acc files)
  case Nil
  then show ?case by simp
next
  case (Cons j order)
  have "snd (generate_single_sample e (rnd j) (int j) w h r idir ldir files) p \<noteq> None"
    using Cons.prems by (rule job_keeps_files)
  then show ?case by (simp add: run_job_eq Cons.IH)
qed

lemma fold_run_job_success_files:
  assumes "j \<in> set order"
    and "fst (generate_single_sample e (rnd j) (int j) w h r idir ldir files0) = Inr True"
  shows "snd (fold (run_job e rnd w h r idir ldir) order (acc, files)) (path_join idir (img_filename (int j))) \<noteq> None
       \<and> snd (fold (run_job e rnd w h r idir ldir) order (acc, files)) (path_join ldir (label_filename (int j))) \<noteq> None"
  using assms(1)
proof (induction order arbitrary: acc files)
  case Nil
  then show ?case by simp
next
  case (Cons i order)
  let ?files1 = "snd (generate_single_sample e (rnd i) (int i) w h r idir ldir files)"
  let ?acc1 = "acc @ [fst (generate_single_sample e (rnd i) (int i) w h r idir ldir files)]"
  have step: "fold (run_job e rnd w h r idir ldir) (i # order) (acc, files)
              = fold (run_job e rnd w h r idir ldir) order (?acc1, ?files1)"
    by (simp add: run_job_eq)
  show ?case
  proof (cases "j \<in> set order")
    case True
    then show ?thesis unfolding step by (rule Cons.IH)
  next
    case False
    then have ij: "i = j" using Cons.prems by simp
    have ok: "fst (generate_single_sample e (rnd j) (int j) w h r idir ldir files) = Inr True"
      using assms(2) job_result_any_files [of e "rnd j" "int j" w h r idir ldir files files0] by simp
    have "?files1 (path_join idir (img_filename (int j))) \<noteq> None"
      "?files1 (path_join ldir (label_filename (int j))) \<noteq> None"
      using job_success_files [OF ok] ij by simp_all
    then show ?thesis unfolding step by (simp add: fold_run_job_keeps)
  qed
qed

lemma run_pool_results:
  "fst (run_pool e rnd w h r idir ldir order files) =
     map (\<lambda>j. fst (generate_single_sample e (rnd j) (int j) w h r idir ldir files0)) order"
  using fold_run_job_results [of e rnd w h r idir ldir order "[]" files files0]
  by (simp add: run_pool_def)

lemma collect_body_emitted:
  "collect_body split_name num_samples (i, res) out = out @ emitted split_name num_samples i res"
  by (cases res) (simp_all add: emitted_def)

lemma fold_collect_body:
  "fold (collect_body split_name num_samples) (enumerate n results) out =
     out @ concat (map (\<lambda>(i, res). emitted split_name num_samples i res) (enumerate n results))"
  by (induction results arbitrary: n out) (simp_all add: collect_body_emitted)

lemma collect_eq:
  "collect split_name num_samples results out =
     out @ concat (map (\<lambda>(i, res). emitted split_name num_samples i res) (enumerate 0 results))"
  by (simp add: collect_def fold_collect_body)

lemma collect_step:
  assumes "i < length results"
  shows "collect split_name num_samples (take (Suc i) results) out =
           collect split_name num_samples (take i results) out
             @ emitted split_name num_samples i (results ! i)"
proof -
  have "take (Suc i) results = take i results @ [results ! i]"
    using assms by (rule take_Suc_conv_app_nth)
  moreover have "length (take i results) = i" using assms by simp
  ultimately show ?thesis
    by (simp add: collect_eq enumerate_append_eq)
qed

lemma generate_split_eq:
  assumes "mkdir_err e (path_join (path_join base split_name) ''images'') = None"
    and "mkdir_err e (path_join (path_join base split_name) ''labels'') = None"
    and "0 < max_workers"
  shows "generate_split e rnd order base w h r max_workers split_name num_samples (files, out) =
             (Inr (),
              snd (run_pool e rnd w h r (path_join (path_join base split_name) ''images'')
                     (path_join (path_join base split_name) ''labels'') order files),
              collect split_name num_samples
                (fst (run_pool e rnd w h r (path_join (path_join base split_name) ''images'')
                        (path_join (path_join base split_name) ''labels'') order files))
                (out @ split_header base split_name num_samples))"
proof -
  obtain results files' where
    rp: "run_pool e rnd w h r (path_join (path_join base split_name) ''images'')
           (path_join (path_join base split_name) ''labels'') order files = (results, files')"
    by (cases "run_pool e rnd w h r (path_join (path_join base split_name) ''images'')
           (path_join (path_join base split_name) ''labels'') order files")
  show ?thesis
    using assms by (simp add: generate_split_def Let_def rp split_header_def)
qed

section \<open>A job that fails\<close>

lemma order_facts:
  assumes "as_completed_order order n" and "k < nat n"
  shows "length order = nat n" and "k \<in> set order" and "distinct order"
    and "\<exists>p<nat n. order ! p = k"
proof -
  from assms(1) have d: "distinct order" and s: "set order = {0..<nat n}"
    by (simp_all add: as_completed_order_def)
  show "distinct order" by (rule d)
  have "length order = card (set order)" using d by (simp add: distinct_card)
  then show l: "length order = nat n" using s by simp
  show ks: "k \<in> set order" using s assms(2) by simp
  then obtain p where "p < length order" "order ! p = k" by (auto simp: in_set_conv_nth)
  then show "\<exists>p<nat n. order ! p = k" using l by auto
qed

lemma one_failure_counts:
  assumes "distinct order" and "k \<in> set order"
  shows "length (filter isl (map (\<lambda>j. if j = k then Inl exc else Inr True) order)) = 1"
    and "length (filter (\<lambda>res. res = Inr True) (map (\<lambda>j. if j = k then (Inl exc :: py_error + bool) else Inr True) order))
           = length order - 1"
proof -
  have a: "filter isl (map (\<lambda>j. if j = k then Inl exc else Inr True) order)
        = map (\<lambda>j. if j = k then Inl exc else Inr True) (filter (\<lambda>j. j = k) order)"
    by (induction order) auto
  have b: "filter (\<lambda>res. res = Inr True) (map (\<lambda>j. if j = k then (Inl exc :: py_error + bool) else Inr True) order)
        = map (\<lambda>j. if j = k then Inl exc else Inr True) (filter (\<lambda>j. j \<noteq> k) order)"
    by (induction order) auto
  have c: "length (filter (\<lambda>j. j = k) order) = 1"
    using assms by (induction order) (auto simp: filter_empty_conv)
  show "length (filter isl (map (\<lambda>j. if j = k then Inl exc else Inr True) order)) = 1"
    by (simp add: a c)
  have "length (filter (\<lambda>j. j \<noteq> k) order) + length (filter (\<lambda>j. j = k) order) = length order"
    using sum_length_filter_compl [of "\<lambda>j. j \<noteq> k" order] by simp
  then have "length (filter (\<lambda>j. j \<noteq> k) order) = length order - 1" using c by simp
  then show "length (filter (\<lambda>res. res = Inr True) (map (\<lambda>j. if j = k then (Inl exc :: py_error + bool) else Inr True) order))
           = length order - 1"
    by (simp add: b)
qed

text \<open>
  Claim C7, as the code has it. Let the directories of a split be created and the pool be
  given a worker, let job \<open>k\<close> of the \<open>N\<close> jobs raise \<open>exc\<close> and every other job return.
  Then, whatever the completion order, the split returns normally; all \<open>N\<close> results are
  observed, one a failure and \<open>N - 1\<close> successes; the image and the label of every other
  index are on disk; and when the failed result is observed the loop prints the line
  \<open>Generated sample threw an exception: \<close> followed by the text of \<open>exc\<close> and goes on
  to the results that remain. The line is a function of the exception alone: the index
  \<open>k\<close> is not printed.
\<close>

theorem failure_isolation:
  assumes "mkdir_err e (path_join (path_join base split_name) ''images'') = None"
    and "mkdir_err e (path_join (path_join base split_name) ''labels'') = None"
    and "0 < max_workers"
    and "as_completed_order order N"
    and "k < nat N"
    and "fst (generate_single_sample e (rnd k) (int k) w h r
                (path_join (path_join base split_name) ''images'')
                (path_join (path_join base split_name) ''labels'') files) = Inl exc"
    and "\<forall>j<nat N. j \<noteq> k \<longrightarrow>
           fst (generate_single_sample e (rnd j) (int j) w h r
                  (path_join (path_join base split_name) ''images'')
                  (path_join (path_join base split_name) ''labels'') files) = Inr True"
  shows "\<exists>results files' p.
           generate_split e rnd order base w h r max_workers split_name N (files, out) =
             (Inr (), files', collect split_name N results (out @ split_header base split_name N))
           \<and> run_pool e rnd w h r (path_join (path_join base split_name) ''images'')
                (path_join (path_join base split_name) ''labels'') order files = (results, files')
           \<and> length results = nat N
           \<and> length (filter isl results) = 1
           \<and> length (filter (\<lambda>res. res = Inr True) results) = nat N - 1
           \<and> (\<forall>j<nat N. j \<noteq> k \<longrightarrow>
                 files' (path_join (path_join (path_join base split_name) ''images'')
                           (img_filename (int j))) \<noteq> None
               \<and> files' (path_join (path_join (path_join base split_name) ''labels'')
                           (label_filename (int j))) \<noteq> None)
           \<and> p < nat N \<and> order ! p = k \<and> results ! p = Inl exc
           \<and> collect split_name N (take (Suc p) results) (out @ split_header base split_name N)
               = collect split_name N (take p results) (out @ split_header base split_name N)
                   @ [''Generated sample threw an exception: '' @ str_exc exc]"
proof -
  let ?idir = "path_join (path_join base split_name) ''images''"
  let ?ldir = "path_join (path_join base split_name) ''labels''"
  let ?job = "\<lambda>j. fst (generate_single_sample e (rnd j) (int j) w h r ?idir ?ldir files)"
  let ?results = "fst (run_pool e rnd w h r ?idir ?ldir order files)"
  let ?files' = "snd (run_pool e rnd w h r ?idir ?ldir order files)"
  note ord = order_facts [OF assms(4,5)]
  have set_order: "set order = {0..<nat N}" using assms(4) by (simp add: as_completed_order_def)
  have res: "?results = map ?job order" by (rule run_pool_results)
  have "map ?job order = map (\<lambda>j. if j = k then Inl exc else Inr True) order"
  proof (rule map_cong [OF refl])
    fix j assume "j \<in> set order"
    then have "j < nat N" using set_order by simp
    then show "?job j = (if j = k then Inl exc else Inr True)"
      using assms(6,7) by auto
  qed
  with res have res': "?results = map (\<lambda>j. if j = k then Inl exc else Inr True) order" by simp
  have len: "length ?results = nat N" using res ord(1) by simp
  have nfail: "length (filter isl ?results) = 1"
    unfolding res' by (rule one_failure_counts(1) [OF ord(3,2)])
  have nsucc: "length (filter (\<lambda>res. res = Inr True) ?results) = nat N - 1"
    unfolding res' using one_failure_counts(2) [OF ord(3,2), of exc] ord(1) by simp
  have others: "\<forall>j<nat N. j \<noteq> k \<longrightarrow>
                 ?files' (path_join ?idir (img_filename (int j))) \<noteq> None
               \<and> ?files' (path_join ?ldir (label_filename (int j))) \<noteq> None"
  proof (intro allI impI)
    fix j assume j: "j < nat N" "j \<noteq> k"
    then have "j \<in> set order" using set_order by simp
    moreover have "?job j = Inr True" using assms(7) j by simp
    ultimately show "?files' (path_join ?idir (img_filename (int j))) \<noteq> None
               \<and> ?files' (path_join ?ldir (label_filename (int j))) \<noteq> None"
      unfolding run_pool_def by (rule fold_run_job_success_files)
  qed
  obtain p where p: "p < nat N" "order ! p = k" using ord(4) by blast
  have rp: "?results ! p = Inl exc" using p ord(1) by (simp add: res')
  have "collect split_name N (take (Suc p) ?results) (out @ split_header base split_name N)
          = collect split_name N (take p ?results) (out @ split_header base split_name N)
              @ emitted split_name N p (?results ! p)"
    using p(1) len by (intro collect_step) simp
  then have line: "collect split_name N (take (Suc p) ?results) (out @ split_header base split_name N)
          = collect split_name N (take p ?results) (out @ split_header base split_name N)
              @ [''Generated sample threw an exception: '' @ str_exc exc]"
    by (simp add: rp emitted_def failure_line_def)
  have gs: "generate_split e rnd order base w h r max_workers split_name N (files, out) =
             (Inr (), ?files', collect split_name N ?results (out @ split_header base split_name N))"
    by (rule generate_split_eq [OF assms(1-3)])
  show ?thesis
  proof (intro exI conjI)
    show "generate_split e rnd order base w h r max_workers split_name N (files, out) =
             (Inr (), ?files', collect split_name N ?results (out @ split_header base split_name N))"
      by (rule gs)
    show "run_pool e rnd w h r ?idir ?ldir order files = (?results, ?files')" by simp
    show "length ?results = nat N" by (rule len)
    show "length (filter isl ?results) = 1" by (rule nfail)
    show "length (filter (\<lambda>res. res = Inr True) ?results) = nat N - 1" by (rule nsucc)
    show "\<forall>j<nat N. j \<noteq> k \<longrightarrow>
                 ?files' (path_join ?idir (img_filename (int j))) \<noteq> None
               \<and> ?files' (path_join ?ldir (label_filename (int j))) \<noteq> None" by (rule others)
    show "p < nat N" by (rule p(1))
    show "order ! p = k" by (rule p(2))
    show "?results ! p = Inl exc" by (rule rp)
    show "collect split_name N (take (Suc p) ?results) (out @ split_header base split_name N)
          = collect split_name N (take p ?results) (out @ split_header base split_name N)
              @ [''Generated sample threw an exception: '' @ str_exc exc]" by (rule line)
  qed
qed

lemma example_dirs:
  "path_join (path_join ''out'' ''train'') ''images'' = ''out/train/images''"
  "path_join (path_join ''out'' ''train'') ''labels'' = ''out/train/labels''"
  by (simp_all add: path_join_def)

lemma example_paths:
  "path_join ''out/train/images'' (img_filename 0) = ''out/train/images/image_00000.png''"
  "path_join ''out/train/images'' (img_filename 1) = ''out/train/images/image_00001.png''"
  "path_join ''out/train/images'' (img_filename 2) = ''out/train/images/image_00002.png''"
  "path_join ''out/train/labels'' (label_filename 0) = ''out/train/labels/image_00000.txt''"
  "path_join ''out/train/labels'' (label_filename 1) = ''out/train/labels/image_00001.txt''"
  "path_join ''out/train/labels'' (label_filename 2) = ''out/train/labels/image_00002.txt''"
  by code_simp+

lemma env_full_mkdir: "mkdir_err (env_full p) q = None"
  by (simp add: env_full_def)

lemma example_jobs_full_1:
  "fst (generate_single_sample (env_full ''out/train/labels/image_00001.txt'') rng_lin 1 4 2 1
          ''out/train/images'' ''out/train/labels'' files)
     = Inl (OSError ''[Errno 28] No space left on device'')"
  "fst (generate_single_sample (env_full ''out/train/labels/image_00001.txt'') rng_lin 0 4 2 1
          ''out/train/images'' ''out/train/labels'' files) = Inr True"
  "fst (generate_single_sample (env_full ''out/train/labels/image_00001.txt'') rng_lin 2 4 2 1
          ''out/train/images'' ''out/train/labels'' files) = Inr True"
  by (simp_all add: generate_single_sample_eq example_paths env_full_def)

lemma example_jobs_full_0:
  "fst (generate_single_sample (env_full ''out/train/labels/image_00000.txt'') rng_lin 0 4 2 1
          ''out/train/images'' ''out/train/labels'' files)
     = Inl (OSError ''[Errno 28] No space left on device'')"
  "fst (generate_single_sample (env_full ''out/train/labels/image_00000.txt'') rng_lin 1 4 2 1
          ''out/train/images'' ''out/train/labels'' files) = Inr True"
  by (simp_all add: generate_single_sample_eq example_paths env_full_def)

text \<open>
  Three jobs on 4 by 2 images, completing in the order 2, 0, 1, on a disk that fills at
  the label of job 1: the split returns, and the files of jobs 0 and 2 are there.
\<close>

theorem failure_isolation_witness:
  "as_completed_order [2, 0, 1] 3 \<and> (1::nat) < nat 3 \<and> (0::int) < 8
   \<and> fst (generate_single_sample (env_full ''out/train/labels/image_00001.txt'') rng_lin 1 4 2 1
            ''out/train/images'' ''out/train/labels'' Map.empty)
        = Inl (OSError ''[Errno 28] No space left on device'')
   \<and> fst (generate_split (env_full ''out/train/labels/image_00001.txt'') (\<lambda>_. rng_lin) [2, 0, 1]
            ''out'' 4 2 1 8 ''train'' 3 (Map.empty, [])) = Inr ()
   \<and> fst (snd (generate_split (env_full ''out/train/labels/image_00001.txt'') (\<lambda>_. rng_lin) [2, 0, 1]
            ''out'' 4 2 1 8 ''train'' 3 (Map.empty, []))) ''out/train/images/image_00002.png'' \<noteq> None
   \<and> fst (snd (generate_split (env_full ''out/train/labels/image_00001.txt'') (\<lambda>_. rng_lin) [2, 0, 1]
            ''out'' 4 2 1 8 ''train'' 3 (Map.empty, []))) ''out/train/labels/image_00000.txt'' \<noteq> None"
proof -
  let ?e = "env_full ''out/train/labels/image_00001.txt''"
  have m: "mkdir_err ?e (path_join (path_join ''out'' ''train'') ''images'') = None"
    "mkdir_err ?e (path_join (path_join ''out'' ''train'') ''labels'') = None"
    by (simp_all add: env_full_def)
  have w: "(0::int) < 8" by simp
  have o: "as_completed_order [2, 0, 1] 3"
    by (auto simp: as_completed_order_def)
  have k: "(1::nat) < nat 3" by simp
  have f: "fst (generate_single_sample ?e ((\<lambda>_. rng_lin) (1::nat)) (int 1) 4 2 1
                 (path_join (path_join ''out'' ''train'') ''images'')
                 (path_join (path_join ''out'' ''train'') ''labels'') Map.empty)
             = Inl (OSError ''[Errno 28] No space left on device'')"
    by (simp add: example_dirs example_jobs_full_1)
  have s: "\<forall>j<nat 3. j \<noteq> 1 \<longrightarrow>
             fst (generate_single_sample ?e ((\<lambda>_. rng_lin) j) (int j) 4 2 1
                    (path_join (path_join ''out'' ''train'') ''images'')
                    (path_join (path_join ''out'' ''train'') ''labels'') Map.empty) = Inr True"
  proof (intro allI impI)
    fix j :: nat assume "j < nat 3" "j \<noteq> 1"
    then have "j = 0 \<or> j = 2" by auto
    then show "fst (generate_single_sample ?e ((\<lambda>_. rng_lin) j) (int j) 4 2 1
                    (path_join (path_join ''out'' ''train'') ''images'')
                    (path_join (path_join ''out'' ''train'') ''labels'') Map.empty) = Inr True"
      by (auto simp: example_dirs example_jobs_full_1)
  qed
  from failure_isolation [OF m w o k f s, of "[]"]
  obtain results files' where
    g: "generate_split ?e (\<lambda>_. rng_lin) [2, 0, 1] ''out'' 4 2 1 8 ''train'' 3 (Map.empty, []) =
          (Inr (), files', collect ''train'' 3 results ([] @ split_header ''out'' ''train'' 3))"
    and a: "\<forall>j<nat 3. j \<noteq> 1 \<longrightarrow>
                 files' (path_join (path_join (path_join ''out'' ''train'') ''images'')
                           (img_filename (int j))) \<noteq> None
               \<and> files' (path_join (path_join (path_join ''out'' ''train'') ''labels'')
                           (label_filename (int j))) \<noteq> None"
    by blast
  have "files' (path_join (path_join (path_join ''out'' ''train'') ''images'') (img_filename (int 2))) \<noteq> None"
    using a [rule_format, of 2] by simp
  then have f2: "files' ''out/train/images/image_00002.png'' \<noteq> None"
    by (simp add: example_dirs example_paths)
  have "files' (path_join (path_join (path_join ''out'' ''train'') ''labels'') (label_filename (int 0))) \<noteq> None"
    using a [rule_format, of 0] by simp
  then have f0: "files' ''out/train/labels/image_00000.txt'' \<noteq> None"
    by (simp add: example_dirs example_paths)
  show ?thesis
    using o example_jobs_full_1(1) [of Map.empty] f2 f0 g by simp
qed

lemma example_log:
  assumes "fst (generate_single_sample e rng_lin (int a) 4 2 1 ''out/train/images'' ''out/train/labels'' Map.empty)
             = Inl (OSError ''[Errno 28] No space left on device'')"
    and "fst (generate_single_sample e rng_lin (int b) 4 2 1 ''out/train/images'' ''out/train/labels'' Map.empty)
             = Inr True"
    and "mkdir_err e ''out/train/images'' = None" "mkdir_err e ''out/train/labels'' = None"
  shows "snd (snd (generate_split e (\<lambda>_. rng_lin) [a, b] ''out'' 4 2 1 8 ''train'' 2 (Map.empty, [])))
         = split_header ''out'' ''train'' 2 @
           [''Generated sample threw an exception: [Errno 28] No space left on device'',
            ''  Generated 2/2 for train'']"
proof -
  have r: "fst (run_pool e (\<lambda>_. rng_lin) 4 2 1 ''out/train/images'' ''out/train/labels'' [a, b] Map.empty)
        = [Inl (OSError ''[Errno 28] No space left on device''), Inr True]"
    using assms(1,2)
    by (simp add: run_pool_results [where ?files0.0 = Map.empty])
  have c: "collect ''train'' 2 [Inl (OSError ''[Errno 28] No space left on device''), Inr True] hdr
         = hdr @ [''Generated sample threw an exception: [Errno 28] No space left on device'',
                  ''  Generated 2/2 for train'']" for hdr
  proof -
    have "progress_line ''train'' 2 1 = ''  Generated 2/2 for train''" by code_simp
    then show ?thesis
      by (simp add: collect_eq emitted_def failure_line_def progress_step_def)
  qed
  have "generate_split e (\<lambda>_. rng_lin) [a, b] ''out'' 4 2 1 8 ''train'' 2 (Map.empty, []) =
          (Inr (),
           snd (run_pool e (\<lambda>_. rng_lin) 4 2 1 (path_join (path_join ''out'' ''train'') ''images'')
                  (path_join (path_join ''out'' ''train'') ''labels'') [a, b] Map.empty),
           collect ''train'' 2
             (fst (run_pool e (\<lambda>_. rng_lin) 4 2 1 (path_join (path_join ''out'' ''train'') ''images'')
                     (path_join (path_join ''out'' ''train'') ''labels'') [a, b] Map.empty))
             ([] @ split_header ''out'' ''train'' 2))"
    using assms(3,4) by (intro generate_split_eq) (simp_all add: example_dirs)
  then show ?thesis by (simp add: example_dirs r c)
qed

text \<open>
  Against claim C7 as stated. Two runs of a split of two jobs: in the first the disk fills
  at the label of job 0 and job 0 completes first, in the second it fills at the label of
  job 1 and job 1 completes first. The jobs that fail have different indices, and the two
  logs are the same, line for line: nothing printed says which index failed.
\<close>

theorem failure_log_omits_index_counterexample:
  "fst (generate_single_sample (env_full ''out/train/labels/image_00000.txt'') rng_lin 0 4 2 1
          ''out/train/images'' ''out/train/labels'' Map.empty)
     = Inl (OSError ''[Errno 28] No space left on device'')
   \<and> fst (generate_single_sample (env_full ''out/train/labels/image_00001.txt'') rng_lin 1 4 2 1
          ''out/train/images'' ''out/train/labels'' Map.empty)
     = Inl (OSError ''[Errno 28] No space left on device'')
   \<and> snd (snd (generate_split (env_full ''out/train/labels/image_00000.txt'') (\<lambda>_. rng_lin) [0, 1]
                 ''out'' 4 2 1 8 ''train'' 2 (Map.empty, [])))
     = split_header ''out'' ''train'' 2 @
         [''Generated sample threw an exception: [Errno 28] No space left on device'',
          ''  Generated 2/2 for train'']
   \<and> snd (snd (generate_split (env_full ''out/train/labels/image_00001.txt'') (\<lambda>_. rng_lin) [1, 0]
                 ''out'' 4 2 1 8 ''train'' 2 (Map.empty, [])))
     = split_header ''out'' ''train'' 2 @
         [''Generated sample threw an exception: [Errno 28] No space left on device'',
          ''  Generated 2/2 for train'']"
proof -
  have a: "snd (snd (generate_split (env_full ''out/train/labels/image_00000.txt'') (\<lambda>_. rng_lin) [0, 1]
                 ''out'' 4 2 1 8 ''train'' 2 (Map.empty, [])))
     = split_header ''out'' ''train'' 2 @
         [''Generated sample threw an exception: [Errno 28] No space left on device'',
          ''  Generated 2/2 for train'']"
    by (rule example_log) (simp_all add: example_jobs_full_0 env_full_mkdir)
  have b: "snd (snd (generate_split (env_full ''out/train/labels/image_00001.txt'') (\<lambda>_. rng_lin) [1, 0]
                 ''out'' 4 2 1 8 ''train'' 2 (Map.empty, [])))
     = split_header ''out'' ''train'' 2 @
         [''Generated sample threw an exception: [Errno 28] No space left on device'',
          ''  Generated 2/2 for train'']"
    by (rule example_log) (simp_all add: example_jobs_full_1 env_full_mkdir)
  show ?thesis
    using a b example_jobs_full_0(1) [of Map.empty] example_jobs_full_1(1) [of Map.empty]
    by simp
qed

section \<open>Progress reports\<close>

lemma step_tenth:
  assumes "0 < N" and "N mod 10 = 0"
  shows "(c mod progress_step N = 0) \<longleftrightarrow> ((10 * c) mod N = 0)"
proof -
  obtain q where q: "N = 10 * q" using assms(2) by (auto simp: mod_eq_0_iff_dvd)
  then have q0: "0 < q" using assms(1) by simp
  have s: "progress_step N = q" using q q0 by (simp add: progress_step_def)
  have "(10 * c) mod (10 * q) = 10 * (c mod q)" by (rule mult_mod_right [symmetric])
  then show ?thesis using q s by simp
qed

text \<open>
  Claim C8, as the code has it. The loop counts every result it is handed, successes and
  failures alike: the \<open>i\<close>-th result (from 0) has count \<open>i + 1\<close>, whatever job it belongs to.
  When that result is a success, the loop prints the progress line
  \<open>Generated (i + 1)/N for split\<close> exactly when \<open>i + 1\<close> is a multiple of
  \<open>N // 10 or 1\<close>, and prints nothing otherwise. For \<open>N\<close> a positive multiple of 10 the
  multiples of the step are the counts at which the share of results observed is a
  multiple of 10 percent.
\<close>

theorem progress_by_count:
  assumes "i < length results" and "results ! i = Inr v"
  shows "collect split_name N (take (Suc i) results) out =
           collect split_name N (take i results) out @
             (if (int i + 1) mod (if N div 10 = 0 then 1 else N div 10) = 0
              then [''  Generated '' @ str_int (int i + 1) @ ''/'' @ str_int N @ '' for '' @ split_name]
              else [])
         \<and> (0 < N \<and> N mod 10 = 0 \<longrightarrow>
               ((int i + 1) mod progress_step N = 0 \<longleftrightarrow> (10 * (int i + 1)) mod N = 0))"
proof -
  have "collect split_name N (take (Suc i) results) out =
          collect split_name N (take i results) out @ emitted split_name N i (results ! i)"
    using assms(1) by (rule collect_step)
  then have "collect split_name N (take (Suc i) results) out =
           collect split_name N (take i results) out @
             (if (int i + 1) mod (if N div 10 = 0 then 1 else N div 10) = 0
              then [''  Generated '' @ str_int (int i + 1) @ ''/'' @ str_int N @ '' for '' @ split_name]
              else [])"
    using assms(2) by (simp add: emitted_def progress_step_def progress_line_def)
  moreover have "0 < N \<and> N mod 10 = 0 \<longrightarrow>
               ((int i + 1) mod progress_step N = 0 \<longleftrightarrow> (10 * (int i + 1)) mod N = 0)"
  proof (intro impI)
    assume "0 < N \<and> N mod 10 = 0"
    then show "(int i + 1) mod progress_step N = 0 \<longleftrightarrow> (10 * (int i + 1)) mod N = 0"
      using step_tenth [of N "int i + 1"] by simp
  qed
  ultimately show ?thesis by (rule conjI)
qed

text \<open>
  Three results, the second a failure: the third result has count 3 and its line reads
  \<open>3/3\<close>, though only two jobs succeeded. With ten results the fifth count is a multiple
  of the step 1 and of 10 percent.
\<close>

theorem progress_by_count_witness:
  "(2::nat) < length [Inr True, Inl (OSError ''[Errno 28] No space left on device''), Inr True]
   \<and> [Inr True, Inl (OSError ''[Errno 28] No space left on device''), Inr True] ! 2 = Inr True
   \<and> collect ''train'' 3
        (take 3 [Inr True, Inl (OSError ''[Errno 28] No space left on device''), Inr True]) [] =
      collect ''train'' 3
        (take 2 [Inr True, Inl (OSError ''[Errno 28] No space left on device''), Inr True]) []
        @ [''  Generated 3/3 for train'']
   \<and> (0::int) < 10 \<and> (10::int) mod 10 = 0
   \<and> ((int 4 + 1) mod progress_step 10 = 0 \<longleftrightarrow> (10 * (int 4 + 1)) mod 10 = 0)"
proof -
  let ?rs = "[Inr True, Inl (OSError ''[Errno 28] No space left on device''), Inr True]"
  have l: "(2::nat) < length ?rs" by simp
  have s: "?rs ! 2 = Inr True" by simp
  have t: "str_int 3 = ''3''" by code_simp
  have "collect ''train'' 3 (take (Suc 2) ?rs) [] =
          collect ''train'' 3 (take 2 ?rs) [] @ [''  Generated 3/3 for train'']"
    using progress_by_count [OF l s, of "''train''" 3 "[]"] by (simp add: t)
  moreover have "Suc 2 = 3" by simp
  ultimately have a: "collect ''train'' 3 (take 3 ?rs) [] =
          collect ''train'' 3 (take 2 ?rs) [] @ [''  Generated 3/3 for train'']"
    by metis
  have l2: "(4::nat) < length (replicate 10 (Inr True :: py_error + bool))" by simp
  have s2: "replicate 10 (Inr True :: py_error + bool) ! 4 = Inr True" by simp
  have b: "(int 4 + 1) mod progress_step 10 = 0 \<longleftrightarrow> (10 * (int 4 + 1)) mod 10 = 0"
    using progress_by_count [OF l2 s2, of "''train''" 10 "[]"] by simp
  show ?thesis using l s a b by simp
qed

text \<open>
  Against claim C8 as stated. With 25 results, all successes, the step is 2: lines are
  printed at the counts 2, 4, ..., 24, so none at count 5 (20 percent) and none at count 25
  (100 percent). With 10 results of which the fifth is a failure, no progress line is
  printed at count 5 (50 percent).
\<close>

theorem progress_not_at_each_tenth_counterexample:
  "collect ''train'' 25 (replicate 25 (Inr True)) [] =
     [''  Generated 2/25 for train'', ''  Generated 4/25 for train'', ''  Generated 6/25 for train'',
      ''  Generated 8/25 for train'', ''  Generated 10/25 for train'', ''  Generated 12/25 for train'',
      ''  Generated 14/25 for train'', ''  Generated 16/25 for train'', ''  Generated 18/25 for train'',
      ''  Generated 20/25 for train'', ''  Generated 22/25 for train'', ''  Generated 24/25 for train'']
   \<and> (10 * 5) mod 25 = (0::int) \<and> (10 * 25) mod 25 = (0::int)
   \<and> collect ''train'' 10
       (replicate 4 (Inr True) @ [Inl (OSError ''[Errno 28] No space left on device'')]
          @ replicate 5 (Inr True)) [] =
     [''  Generated 1/10 for train'', ''  Generated 2/10 for train'', ''  Generated 3/10 for train'',
      ''  Generated 4/10 for train'',
      ''Generated sample threw an exception: [Errno 28] No space left on device'',
      ''  Generated 6/10 for train'', ''  Generated 7/10 for train'', ''  Generated 8/10 for train'',
      ''  Generated 9/10 for train'', ''  Generated 10/10 for train'']"
proof -
  have a: "collect ''train'' 25 (replicate 25 (Inr True)) [] =
     [''  Generated 2/25 for train'', ''  Generated 4/25 for train'', ''  Generated 6/25 for train'',
      ''  Generated 8/25 for train'', ''  Generated 10/25 for train'', ''  Generated 12/25 for train'',
      ''  Generated 14/25 for train'', ''  Generated 16/25 for train'', ''  Generated 18/25 for train'',
      ''  Generated 20/25 for train'', ''  Generated 22/25 for train'', ''  Generated 24/25 for train'']"
    by code_simp
  have b: "collect ''train'' 10
       (replicate 4 (Inr True) @ [Inl (OSError ''[Errno 28] No space left on device'')]
          @ replicate 5 (Inr True)) [] =
     [''  Generated 1/10 for train'', ''  Generated 2/10 for train'', ''  Generated 3/10 for train'',
      ''  Generated 4/10 for train'',
      ''Generated sample threw an exception: [Errno 28] No space left on device'',
      ''  Generated 6/10 for train'', ''  Generated 7/10 for train'', ''  Generated 8/10 for train'',
      ''  Generated 9/10 for train'', ''  Generated 10/10 for train'']"
    by code_simp
  show ?thesis using a b by simp
qed

section \<open>Geometry that cannot be placed\<close>






end
